theory Spec2Isabelle
  imports Main
begin

section \<open>The menu bar (MenuBarInput component)\<close>

subsection \<open>Action bodies\<close>

text \<open>
  Every \<open>action\<close> of the static menu table is an arrow function whose body is one
  expression: a call on \<open>editor.instance\<close>, a call of \<open>window.open\<close>, or
  \<open>undefined\<close>. The expressions are kept as syntax trees, so that the methods an action
  calls can be read off. \<open>EditorCall m args\<close> is \<open>editor.instance.m(args)\<close>.
\<close>

datatype expr =
    Num int
  | Str string
  | Undefined
  | EditorCall string "expr list"
  | WindowOpen "expr list"

text \<open>\<open>Sync b\<close> is \<open>(): T => b\<close>, \<open>Async b\<close> is \<open>async (): Promise<void> => b\<close>.\<close>

datatype action = Sync expr | Async expr

fun body :: "action \<Rightarrow> expr" where
  "body (Sync b) = b"
| "body (Async b) = b"

subsection \<open>Menu entries\<close>

text \<open>
  The floating menu component an entry's \<open>ref\<close> points to. Its declaration is not part
  of the menu bar's file. The handlers of the menu bar read and write only its \<open>isOpen\<close>
  field, which is the one field kept here; the template also hands its \<open>open\<close> and
  \<open>keydown\<close> on, untouched.
\<close>

record MenuList =
  isOpen :: bool

text \<open>
  A menu entry. A field the object literal leaves out is \<open>undefined\<close> in the source and
  \<open>None\<close> here. \<open>children\<close> is a list of sections, each a list of entries.
\<close>

datatype MenuListEntry = MenuListEntry
  (label: string)
  (icon: "string option")
  (shortcut: "string list option")
  (shortcutRequiresLock: "bool option")
  (checkbox: "bool option")
  (checked: "bool option")
  (action: "action option")
  (children: "MenuListEntry list list option")
  (ref: "MenuList option")


text \<open>
  Entries nested in a menu give no \<open>ref\<close>, \<open>checkbox\<close> or \<open>checked\<close> key, with one
  exception (Auto-Save); \<open>item\<close> abbreviates the constructor for them.
\<close>

abbreviation item ::
  "string \<Rightarrow> string option \<Rightarrow> string list option \<Rightarrow> bool option \<Rightarrow> action option \<Rightarrow>
   MenuListEntry list list option \<Rightarrow> MenuListEntry" where
  "item l i s k a c \<equiv> MenuListEntry l i s k None None a c None"

text \<open>A top-level entry of the table: \<open>{ label, ref: undefined, children }\<close>.\<close>

abbreviation top :: "string \<Rightarrow> MenuListEntry list list \<Rightarrow> MenuListEntry" where
  "top l c \<equiv> MenuListEntry l None None None None None None (Some c) None"

text \<open>
  The horizontal ellipsis (U+2026) of the labels \<open>New\<dots>\<close>, \<open>Open\<dots>\<close>, \<open>Save As\<dots>\<close>,
  \<open>Import\<dots>\<close> and \<open>Export\<dots>\<close>, as its three UTF-8 bytes.
\<close>

abbreviation ellipsis :: string where
  "ellipsis \<equiv> [CHR 0xE2, CHR 0x80, CHR 0xA6]"

abbreviation call0 :: "string \<Rightarrow> expr" where
  "call0 m \<equiv> EditorCall m []"

definition makeEntries :: "MenuListEntry list" where
  "makeEntries = [
    top ''File'' [
      [ item (''New'' @ ellipsis) (Some ''File'') (Some [''KeyControl'', ''KeyN'']) (Some True)
          (Some (Sync (call0 ''request_new_document_dialog''))) None,
        item (''Open'' @ ellipsis) None (Some [''KeyControl'', ''KeyO'']) None
          (Some (Sync (call0 ''open_document''))) None,
        item ''Open Recent'' None (Some [''KeyControl'', ''KeyShift'', ''KeyO'']) None
          (Some (Sync Undefined))
          (Some [
            [ item ''Reopen Last Closed'' None (Some [''KeyControl'', ''KeyShift'', ''KeyT'']) (Some True) None None,
              item ''Clear Recently Opened'' None None None None None ],
            [ item ''Some Recent File.gdd'' None None None None None,
              item ''Another Recent File.gdd'' None None None None None,
              item ''An Older File.gdd'' None None None None None,
              item ''Some Other Older File.gdd'' None None None None None,
              item ''Yet Another Older File.gdd'' None None None None None ] ]) ],
      [ item ''Close'' None (Some [''KeyControl'', ''KeyW'']) (Some True)
          (Some (Async (call0 ''close_active_document_with_confirmation''))) None,
        item ''Close All'' None (Some [''KeyControl'', ''KeyAlt'', ''KeyW'']) None
          (Some (Async (call0 ''close_all_documents_with_confirmation''))) None ],
      [ item ''Save'' None (Some [''KeyControl'', ''KeyS'']) None
          (Some (Async (call0 ''save_document''))) None,
        item (''Save As'' @ ellipsis) None (Some [''KeyControl'', ''KeyShift'', ''KeyS'']) None
          (Some (Async (call0 ''save_document''))) None,
        item ''Save All'' None (Some [''KeyControl'', ''KeyAlt'', ''KeyS'']) None None None,
        MenuListEntry ''Auto-Save'' None None None (Some True) (Some True) None None None ],
      [ item (''Import'' @ ellipsis) None (Some [''KeyControl'', ''KeyI'']) None None None,
        item (''Export'' @ ellipsis) None (Some [''KeyControl'', ''KeyE'']) None
          (Some (Async (call0 ''export_document''))) None ],
      [ item ''Quit'' None (Some [''KeyControl'', ''KeyQ'']) None None None ] ],
    top ''Edit'' [
      [ item ''Undo'' None (Some [''KeyControl'', ''KeyZ'']) None (Some (Async (call0 ''undo''))) None,
        item ''Redo'' None (Some [''KeyControl'', ''KeyShift'', ''KeyZ'']) None (Some (Async (call0 ''redo''))) None ],
      [ item ''Cut'' None (Some [''KeyControl'', ''KeyX'']) None (Some (Async (call0 ''cut''))) None,
        item ''Copy'' (Some ''Copy'') (Some [''KeyControl'', ''KeyC'']) None (Some (Async (call0 ''copy''))) None ] ],
    top ''Layer'' [
      [ item ''Select All'' None (Some [''KeyControl'', ''KeyA'']) None
          (Some (Async (call0 ''select_all_layers''))) None,
        item ''Deselect All'' None (Some [''KeyControl'', ''KeyAlt'', ''KeyA'']) None
          (Some (Async (call0 ''deselect_all_layers''))) None,
        item ''Order'' None None None (Some (Sync Undefined))
          (Some [
            [ item ''Raise To Front'' None (Some [''KeyControl'', ''KeyShift'', ''KeyLeftBracket'']) None
                (Some (Async (EditorCall ''reorder_selected_layers'' [call0 ''i32_max'']))) None,
              item ''Raise'' None (Some [''KeyControl'', ''KeyRightBracket'']) None
                (Some (Async (EditorCall ''reorder_selected_layers'' [Num 1]))) None,
              item ''Lower'' None (Some [''KeyControl'', ''KeyLeftBracket'']) None
                (Some (Async (EditorCall ''reorder_selected_layers'' [Num (- 1)]))) None,
              item ''Lower to Back'' None (Some [''KeyControl'', ''KeyShift'', ''KeyRightBracket'']) None
                (Some (Async (EditorCall ''reorder_selected_layers'' [call0 ''i32_min'']))) None ] ]) ] ],
    top ''Document'' [
      [ item ''Menu entries coming soon'' None None None None None ] ],
    top ''View'' [
      [ item ''Show/Hide Node Graph (In Development)'' None None None
          (Some (Async (call0 ''toggle_node_graph_visibility''))) None ] ],
    top ''Help'' [
      [ item ''About Graphite'' None None None
          (Some (Async (call0 ''request_about_graphite_dialog''))) None ],
      [ item ''Report a Bug'' None None None
          (Some (Sync (WindowOpen [Str ''https://github.com/GraphiteEditor/Graphite/issues/new'', Str ''_blank'']))) None,
        item ''Visit on GitHub'' None None None
          (Some (Sync (WindowOpen [Str ''https://github.com/GraphiteEditor/Graphite'', Str ''_blank'']))) None ],
      [ item ''Debug: Set Log Level'' None None None (Some (Sync Undefined))
          (Some [
            [ item ''Log Level Info'' None (Some [''Key1'']) None (Some (Async (call0 ''log_level_info''))) None,
              item ''Log Level Debug'' None (Some [''Key2'']) None (Some (Async (call0 ''log_level_debug''))) None,
              item ''Log Level Trace'' None (Some [''Key3'']) None (Some (Async (call0 ''log_level_trace''))) None ] ]),
        item ''Debug: Panic (DANGER)'' None None None (Some (Async (call0 ''intentional_panic''))) None ] ] ]"

subsection \<open>Reading the table\<close>

text \<open>The names of the \<open>editor.instance\<close> methods an expression calls, arguments included.\<close>

fun expr_methods :: "expr \<Rightarrow> string list" where
  "expr_methods (EditorCall m args) = m # concat (map expr_methods args)"
| "expr_methods (WindowOpen args) = concat (map expr_methods args)"
| "expr_methods (Num n) = []"
| "expr_methods (Str s) = []"
| "expr_methods Undefined = []"

text \<open>The same over an entry and the entries of its submenus, and over a list of entries.\<close>

fun entry_methods :: "MenuListEntry \<Rightarrow> string list" where
  "entry_methods (MenuListEntry l i s k cb ck a c r) =
     (case a of None \<Rightarrow> [] | Some f \<Rightarrow> expr_methods (body f)) @
     (case c of None \<Rightarrow> [] | Some secs \<Rightarrow> concat (map (\<lambda>sec. concat (map entry_methods sec)) secs))"

definition entries_methods :: "MenuListEntry list \<Rightarrow> string list" where
  "entries_methods es = concat (map entry_methods es)"

text \<open>
  The method an action calls directly: the head of its body when that is a call on
  \<open>editor.instance\<close>.
\<close>

fun action_head :: "action option \<Rightarrow> string list" where
  "action_head (Some (Sync (EditorCall m args))) = [m]"
| "action_head (Some (Async (EditorCall m args))) = [m]"
| "action_head _ = []"

fun entry_heads :: "MenuListEntry \<Rightarrow> string list" where
  "entry_heads (MenuListEntry l i s k cb ck a c r) =
     action_head a @
     (case c of None \<Rightarrow> [] | Some secs \<Rightarrow> concat (map (\<lambda>sec. concat (map entry_heads sec)) secs))"

definition entries_heads :: "MenuListEntry list \<Rightarrow> string list" where
  "entries_heads es = concat (map entry_heads es)"

text \<open>The methods called inside the argument list of a direct call.\<close>

fun action_arg_methods :: "action option \<Rightarrow> (string \<times> string) list" where
  "action_arg_methods (Some (Sync (EditorCall m args))) = map (Pair m) (concat (map expr_methods args))"
| "action_arg_methods (Some (Async (EditorCall m args))) = map (Pair m) (concat (map expr_methods args))"
| "action_arg_methods _ = []"

fun entry_arg_methods :: "MenuListEntry \<Rightarrow> (string \<times> string) list" where
  "entry_arg_methods (MenuListEntry l i s k cb ck a c r) =
     action_arg_methods a @
     (case c of None \<Rightarrow> [] | Some secs \<Rightarrow> concat (map (\<lambda>sec. concat (map entry_arg_methods sec)) secs))"

definition entries_arg_methods :: "MenuListEntry list \<Rightarrow> (string \<times> string) list" where
  "entries_arg_methods es = concat (map entry_arg_methods es)"

text \<open>
  The list of section 6 of the specification, with \<open>log_level_info/debug/trace\<close> written
  out. This definition follows the specification, not the source.
\<close>

definition spec_interface_methods :: "string list" where
  "spec_interface_methods =
    [''request_new_document_dialog'', ''open_document'',
     ''close_active_document_with_confirmation'', ''close_all_documents_with_confirmation'',
     ''save_document'', ''export_document'', ''undo'', ''redo'', ''cut'', ''copy'',
     ''select_all_layers'', ''deselect_all_layers'', ''reorder_selected_layers'',
     ''toggle_node_graph_visibility'', ''request_about_graphite_dialog'',
     ''log_level_info'', ''log_level_debug'', ''log_level_trace'', ''intentional_panic'']"

text \<open>Looking an entry up by its label, in a list of entries and along a path of submenus.\<close>

fun find_label :: "string \<Rightarrow> MenuListEntry list \<Rightarrow> MenuListEntry option" where
  "find_label l [] = None"
| "find_label l (e # es) = (if label e = l then Some e else find_label l es)"

fun entry_at :: "string list \<Rightarrow> MenuListEntry list \<Rightarrow> MenuListEntry option" where
  "entry_at [] es = None"
| "entry_at [l] es = find_label l es"
| "entry_at (l # ls) es =
     (case find_label l es of
        None \<Rightarrow> None
      | Some e \<Rightarrow> (case children e of None \<Rightarrow> None | Some secs \<Rightarrow> entry_at ls (concat secs)))"

subsection \<open>The document around the menu bar\<close>

text \<open>
  The elements the template renders, and the rest of the document: the root
  \<open><div data-menu-bar-input>\<close>, which is the component's \<open>this.$el\<close>; inside it the logo
  button and, for the entry at each index of \<open>entries\<close>, the entry's own \<open><div>\<close> (which
  carries the click, blur and keydown listeners) with the icon and label inside it; and
  the elements outside the menu bar.
\<close>

datatype element = Root | LogoButton | EntryDiv nat | EntryChild nat | Outside nat

text \<open>
  \<open>x.closest("[data-menu-bar-input]")\<close>: the nearest of \<open>x\<close> and its ancestors that carries
  the attribute. Within the template that is the root. For an element outside it is
  \<open>null\<close>, or the root of another menu bar; either way it is not \<open>this.$el\<close>, and
  \<open>None\<close> stands for both.
\<close>

fun closest_menu_bar :: "element \<Rightarrow> element option" where
  "closest_menu_bar Root = Some Root"
| "closest_menu_bar LogoButton = Some Root"
| "closest_menu_bar (EntryDiv i) = Some Root"
| "closest_menu_bar (EntryChild i) = Some Root"
| "closest_menu_bar (Outside n) = None"

subsection \<open>The handlers of the menu bar\<close>

text \<open>
  Focusing an element and opening a window, \<open>window.open(url, target)\<close>, are effects
  outside the component.
\<close>

datatype dom_effect = Focus element | OpenWindow string string

text \<open>
  What a handler can throw: an \<open>Error\<close> with its message, made by \<open>new Error\<close>, and the
  \<open>TypeError\<close> of reading a property of \<open>null\<close>.
\<close>

datatype error = Error string | TypeError

text \<open>
  How a handler leaves: the error it threw, if any, and the state as it is at that
  moment. An assignment made before a \<open>throw\<close> stays made.
\<close>

type_synonym 'a exit = "error option \<times> 'a"

abbreviation thrown :: "'a exit \<Rightarrow> error option" where
  "thrown x \<equiv> fst x"

abbreviation at_exit :: "'a exit \<Rightarrow> 'a" where
  "at_exit x \<equiv> snd x"

text \<open>
  The blur event: \<open>target\<close> is the element that lost focus, \<open>relatedTarget\<close> the one that
  gains it. Both are of type \<open>EventTarget | null\<close>.
\<close>

record FocusEvent =
  target :: "element option"
  relatedTarget :: "element option"

text \<open>The read \<open>entry.ref?.isOpen\<close> of the template, as a truth value.\<close>

definition entry_isOpen :: "MenuListEntry \<Rightarrow> bool" where
  "entry_isOpen e = (case ref e of None \<Rightarrow> False | Some m \<Rightarrow> isOpen m)"

text \<open>The assignment \<open>menuEntry.ref.isOpen = b\<close>, for an entry whose \<open>ref\<close> is set.\<close>

fun assign_isOpen :: "bool \<Rightarrow> MenuListEntry \<Rightarrow> MenuListEntry" where
  "assign_isOpen b (MenuListEntry l i s k cb ck a c r) =
     MenuListEntry l i s k cb ck a c (map_option (\<lambda>m. m\<lparr>isOpen := b\<rparr>) r)"

text \<open>The assignment \<open>entry.ref = m\<close>.\<close>

fun assign_ref :: "MenuList \<Rightarrow> MenuListEntry \<Rightarrow> MenuListEntry" where
  "assign_ref m (MenuListEntry l i s k cb ck a c r) = MenuListEntry l i s k cb ck a c (Some m)"

text \<open>
  \<open>onClick(menuEntry, target)\<close>: focus the target when there is one; then, when the entry
  has a \<open>ref\<close>, open its menu, and otherwise throw. The result is the DOM effects made,
  the error thrown if any, and the entry as the call leaves it.
\<close>

definition onClick :: "MenuListEntry \<Rightarrow> element option \<Rightarrow> dom_effect list \<times> MenuListEntry exit" where
  "onClick menuEntry tgt =
     ((case tgt of None \<Rightarrow> [] | Some t \<Rightarrow> [Focus t]),
      (if ref menuEntry \<noteq> None then (None, assign_isOpen True menuEntry)
       else (Some (Error ''The menu bar floating menu has no associated ref''), menuEntry)))"

text \<open>
  \<open>blur(e, menuEntry)\<close>. The target is read without a guard, \<open>(e.target as
  HTMLElement).closest(...)\<close>, so a \<open>null\<close> target is a \<open>TypeError\<close>. The test is on the
  target, the element that lost focus; \<open>relatedTarget\<close> is not read.
\<close>

definition blur :: "FocusEvent \<Rightarrow> MenuListEntry \<Rightarrow> MenuListEntry exit" where
  "blur e menuEntry =
     (case target e of
        None \<Rightarrow> (Some TypeError, menuEntry)
      | Some t \<Rightarrow>
          (None,
           if closest_menu_bar t \<noteq> Some Root \<and> ref menuEntry \<noteq> None
           then assign_isOpen False menuEntry else menuEntry))"

text \<open>
  The function given as \<open>:ref\<close> to the entry's floating menu,
  \<open>(ref) => ref && (entry.ref = ref)\<close>: called with the component instance when it is
  mounted and with \<open>null\<close> when it is unmounted.
\<close>

definition ref_callback :: "MenuList option \<Rightarrow> MenuListEntry \<Rightarrow> MenuListEntry" where
  "ref_callback r entry = (case r of None \<Rightarrow> entry | Some m \<Rightarrow> assign_ref m entry)"

text \<open>\<open>visitWebsite(url)\<close>\<close>

definition visitWebsite :: "string \<Rightarrow> dom_effect list" where
  "visitWebsite url = [OpenWindow url ''_blank'']"

subsection \<open>The menu bar component\<close>

text \<open>The component's data, as \<open>data()\<close> returns it.\<close>

record MenuBarInput =
  entries :: "MenuListEntry list"
  "open" :: bool

definition data :: MenuBarInput where
  "data = \<lparr>entries = makeEntries, open = False\<rparr>"

text \<open>
  The events the template binds to the component's own code. On the entry rendered at an
  index of \<open>entries\<close>: a click, with its target; a blur, with the element that gains the
  focus; and the mounting of the entry's floating menu. And a click on the logo button.
  A key press on an entry goes to the floating menu's own \<open>keydown\<close>, which is not code
  of the menu bar.
\<close>

datatype menu_event =
    Click nat "element option"
  | Blur nat "element option"
  | SetRef nat "MenuList option"
  | LogoClick

text \<open>
  The template's \<open>v-for\<close> renders one element per entry, so an event names an index below
  the length of \<open>entries\<close>; for any other index there is no element and nothing runs. The
  handler changes the entry it is given in place, which is the entry at that index. The
  blur listener is on the entry's own \<open><div>\<close> and blur events do not bubble, so the
  event it receives has that \<open><div>\<close> as its target.
\<close>

definition handle :: "menu_event \<Rightarrow> MenuBarInput \<Rightarrow> dom_effect list \<times> MenuBarInput exit" where
  "handle ev st =
     (case ev of
        Click i tgt \<Rightarrow>
          (if i < length (entries st) then
             (case onClick (entries st ! i) tgt of
                (fx, err, e') \<Rightarrow> (fx, err, st\<lparr>entries := (entries st)[i := e']\<rparr>))
           else ([], None, st))
      | Blur i rel \<Rightarrow>
          (if i < length (entries st) then
             (case blur \<lparr>target = Some (EntryDiv i), relatedTarget = rel\<rparr> (entries st ! i) of
                (err, e') \<Rightarrow> ([], err, st\<lparr>entries := (entries st)[i := e']\<rparr>))
           else ([], None, st))
      | SetRef i r \<Rightarrow>
          (if i < length (entries st) then
             ([], None, st\<lparr>entries := (entries st)[i := ref_callback r (entries st ! i)]\<rparr>)
           else ([], None, st))
      | LogoClick \<Rightarrow> (visitWebsite ''https://graphite.rs'', None, st))"

text \<open>
  One event after another. The data after an event is the data as its handler left it,
  whether it returned or threw; the next event is handled from there.
\<close>

definition step :: "MenuBarInput \<Rightarrow> menu_event \<Rightarrow> MenuBarInput" where
  "step st ev = at_exit (snd (handle ev st))"

definition run :: "menu_event list \<Rightarrow> MenuBarInput \<Rightarrow> MenuBarInput" where
  "run evs st = foldl step st evs"

text \<open>
  The component once rendered: the floating menu of every entry mounted, closed.
\<close>

definition mounted :: "MenuBarInput \<Rightarrow> MenuBarInput" where
  "mounted st = st\<lparr>entries := map (ref_callback (Some \<lparr>isOpen = False\<rparr>)) (entries st)\<rparr>"

text \<open>The indices of the entries whose menu is open, and the number of them.\<close>

definition open_indices :: "MenuBarInput \<Rightarrow> nat list" where
  "open_indices st = filter (\<lambda>i. entry_isOpen (entries st ! i)) [0..<length (entries st)]"

definition open_count :: "MenuBarInput \<Rightarrow> nat" where
  "open_count st = length (open_indices st)"

text \<open>An entry without its \<open>ref\<close>: everything the static table gave it.\<close>

fun static_part :: "MenuListEntry \<Rightarrow> MenuListEntry" where
  "static_part (MenuListEntry l i s k cb ck a c r) = MenuListEntry l i s k cb ck a c None"

text \<open>
  Whether an event is one of the two handlers \<open>onClick\<close> and \<open>blur\<close>, and the indices of
  the entries clicked in a sequence of events.
\<close>

fun is_click_or_blur :: "menu_event \<Rightarrow> bool" where
  "is_click_or_blur (Click i t) = True"
| "is_click_or_blur (Blur i rel) = True"
| "is_click_or_blur (SetRef i r) = False"
| "is_click_or_blur LogoClick = False"

fun clicked :: "menu_event list \<Rightarrow> nat list" where
  "clicked [] = []"
| "clicked (Click i t # evs) = i # clicked evs"
| "clicked (Blur i rel # evs) = clicked evs"
| "clicked (SetRef i r # evs) = clicked evs"
| "clicked (LogoClick # evs) = clicked evs"

section \<open>The panel (Panel component)\<close>

datatype PanelTypes = Document | Properties | LayerTree | NodeGraph | IconButton | PopoverButton

text \<open>
  The props. \<open>tabActiveIndex\<close> is a number the parent gives, of either sign. The two
  callbacks are not required: \<open>None\<close> is a prop left out. A callback is a function of the
  parent, kept as a value of type \<open>'f\<close>.
\<close>

record 'f Panel =
  tabMinWidths :: bool
  tabCloseButtons :: bool
  tabLabels :: "string list"
  tabActiveIndex :: int
  panelType :: PanelTypes
  clickAction :: "'f option"
  closeAction :: "'f option"

text \<open>A mouse event, by identity.\<close>

datatype MouseEvent = MouseEvent nat

text \<open>What a handler of the tab bar does: stop an event's propagation, call a callback.\<close>

datatype 'f panel_effect = StopPropagation MouseEvent | Invoke 'f nat

text \<open>\<open>e?.stopPropagation()\<close>\<close>

definition stopPropagation_opt :: "MouseEvent option \<Rightarrow> error + 'f panel_effect list" where
  "stopPropagation_opt e = (case e of None \<Rightarrow> Inr [] | Some ev \<Rightarrow> Inr [StopPropagation ev])"

text \<open>\<open>f?.(tabIndex)\<close>: no call, and no error, when \<open>f\<close> is undefined.\<close>

definition optional_call :: "'f option \<Rightarrow> nat \<Rightarrow> error + 'f panel_effect list" where
  "optional_call f tabIndex = (case f of None \<Rightarrow> Inr [] | Some g \<Rightarrow> Inr [Invoke g tabIndex])"

text \<open>The comma operator \<open>(a, b)\<close>: \<open>a\<close>, then \<open>b\<close> unless \<open>a\<close> threw.\<close>

definition comma :: "error + 'f panel_effect list \<Rightarrow> error + 'f panel_effect list \<Rightarrow> error + 'f panel_effect list" where
  "comma a b =
     (case a of
        Inl err \<Rightarrow> Inl err
      | Inr fx \<Rightarrow> (case b of Inl err \<Rightarrow> Inl err | Inr fx' \<Rightarrow> Inr (fx @ fx')))"

text \<open>The three handlers the template gives the tab at \<open>tabIndex\<close>.\<close>

definition tab_click :: "'f Panel \<Rightarrow> nat \<Rightarrow> MouseEvent option \<Rightarrow> error + 'f panel_effect list" where
  "tab_click p tabIndex e = comma (stopPropagation_opt e) (optional_call (clickAction p) tabIndex)"

definition tab_click_middle :: "'f Panel \<Rightarrow> nat \<Rightarrow> MouseEvent option \<Rightarrow> error + 'f panel_effect list" where
  "tab_click_middle p tabIndex e = comma (stopPropagation_opt e) (optional_call (closeAction p) tabIndex)"

definition close_button_action :: "'f Panel \<Rightarrow> nat \<Rightarrow> MouseEvent option \<Rightarrow> error + 'f panel_effect list" where
  "close_button_action p tabIndex e = comma (stopPropagation_opt e) (optional_call (closeAction p) tabIndex)"

text \<open>
  What the template renders for the tab bar: one tab per label, in order, marked active
  when its index is \<open>tabActiveIndex\<close>, with a close button when \<open>tabCloseButtons\<close> is set.
\<close>

record tab_view =
  tab_label :: string
  active :: bool
  close_button :: bool

definition render_tabs :: "'f Panel \<Rightarrow> tab_view list" where
  "render_tabs p =
     map (\<lambda>tabIndex. \<lparr>tab_label = tabLabels p ! tabIndex,
                      active = (int tabIndex = tabActiveIndex p),
                      close_button = tabCloseButtons p\<rparr>)
       [0..<length (tabLabels p)]"

text \<open>
  The events of the tab bar, each on the tab at an index. An event on a tab or a close
  button that is not rendered does not occur: no handler runs for it.
\<close>

datatype panel_event =
    TabClick nat "MouseEvent option"
  | TabMiddleClick nat "MouseEvent option"
  | CloseButtonClick nat "MouseEvent option"

fun event_tab :: "panel_event \<Rightarrow> nat" where
  "event_tab (TabClick i e) = i"
| "event_tab (TabMiddleClick i e) = i"
| "event_tab (CloseButtonClick i e) = i"

definition panel_handle :: "'f Panel \<Rightarrow> panel_event \<Rightarrow> error + 'f panel_effect list" where
  "panel_handle p ev =
     (case ev of
        TabClick i e \<Rightarrow> (if i < length (tabLabels p) then tab_click p i e else Inr [])
      | TabMiddleClick i e \<Rightarrow> (if i < length (tabLabels p) then tab_click_middle p i e else Inr [])
      | CloseButtonClick i e \<Rightarrow>
          (if i < length (tabLabels p) \<and> tabCloseButtons p then close_button_action p i e else Inr []))"

text \<open>The callback calls among the effects of a handler, as pairs of callback and argument.\<close>

fun invocations_of :: "'f panel_effect list \<Rightarrow> ('f \<times> nat) list" where
  "invocations_of [] = []"
| "invocations_of (StopPropagation ev # fx) = invocations_of fx"
| "invocations_of (Invoke g i # fx) = (g, i) # invocations_of fx"

definition invocations :: "error + 'f panel_effect list \<Rightarrow> ('f \<times> nat) list" where
  "invocations r = (case r of Inl err \<Rightarrow> [] | Inr fx \<Rightarrow> invocations_of fx)"

text \<open>The bound of the active index, and the number of tabs rendered as active.\<close>

definition active_in_bounds :: "'f Panel \<Rightarrow> bool" where
  "active_in_bounds p = (0 \<le> tabActiveIndex p \<and> tabActiveIndex p < int (length (tabLabels p)))"

definition active_count :: "'f Panel \<Rightarrow> nat" where
  "active_count p = length (filter active (render_tabs p))"

text \<open>A panel with no tabs, as when no document is open, and one with two.\<close>

definition empty_panel :: "string Panel" where
  "empty_panel = \<lparr>tabMinWidths = True, tabCloseButtons = True, tabLabels = [], tabActiveIndex = 0,
     panelType = Document, clickAction = Some ''selectDocument'', closeAction = Some ''closeDocument''\<rparr>"

definition two_tab_panel :: "string Panel" where
  "two_tab_panel = \<lparr>tabMinWidths = True, tabCloseButtons = True,
     tabLabels = [''Untitled Document'', ''Untitled Document 2''], tabActiveIndex = 1,
     panelType = Document, clickAction = Some ''selectDocument'', closeAction = Some ''closeDocument''\<rparr>"

definition bare_panel :: "string Panel" where
  "bare_panel = \<lparr>tabMinWidths = False, tabCloseButtons = True,
     tabLabels = [''Properties''], tabActiveIndex = 0,
     panelType = Properties, clickAction = None, closeAction = None\<rparr>"

section \<open>Properties of the menu bar\<close>

subsection \<open>The handlers, one step at a time\<close>

lemma entry_isOpen_assign: "entry_isOpen (assign_isOpen b e) = (ref e \<noteq> None \<and> b)"
  by (cases e) (simp add: entry_isOpen_def split: option.splits)

lemma not_open_without_ref: "ref e = None \<Longrightarrow> \<not> entry_isOpen e"
  by (simp add: entry_isOpen_def)

lemma step_Click:
  "step st (Click i t) =
     (if i < length (entries st) \<and> ref (entries st ! i) \<noteq> None
      then st\<lparr>entries := (entries st)[i := assign_isOpen True (entries st ! i)]\<rparr> else st)"
  by (simp add: step_def handle_def onClick_def)

lemma blur_own_div: "blur \<lparr>target = Some (EntryDiv i), relatedTarget = rel\<rparr> menuEntry = (None, menuEntry)"
  by (simp add: blur_def)

lemma step_Blur: "step st (Blur i rel) = st"
  by (simp add: step_def handle_def blur_own_div)

lemma step_SetRef:
  "step st (SetRef i r) =
     (if i < length (entries st)
      then st\<lparr>entries := (entries st)[i := ref_callback r (entries st ! i)]\<rparr> else st)"
  by (simp add: step_def handle_def)

lemma step_LogoClick: "step st LogoClick = st"
  by (simp add: step_def handle_def)

lemma run_Nil: "run [] st = st"
  by (simp add: run_def)

lemma run_Cons: "run (ev # evs) st = run evs (step st ev)"
  by (simp add: run_def)

lemma entries_mounted_data:
  "entries (mounted data) = map (ref_callback (Some \<lparr>isOpen = False\<rparr>)) makeEntries"
  by (simp add: mounted_def data_def)

text \<open>The equations that evaluate a run of events on the rendered component.\<close>

lemmas eval_menu = run_def step_Click step_Blur open_count_def open_indices_def
  entries_mounted_data makeEntries_def ref_callback_def entry_isOpen_def upt_rec

subsection \<open>What the static table keeps\<close>

lemma static_part_assign_isOpen: "static_part (assign_isOpen b e) = static_part e"
  by (cases e) simp

lemma static_part_assign_ref: "static_part (assign_ref m e) = static_part e"
  by (cases e) simp

lemma static_part_ref_callback: "static_part (ref_callback r e) = static_part e"
  by (simp add: ref_callback_def static_part_assign_ref split: option.splits)

lemma map_static_update:
  "i < length es \<Longrightarrow> static_part e' = static_part (es ! i) \<Longrightarrow>
   map static_part (es[i := e']) = map static_part es"
  by (simp add: map_update list_update_same_conv)

lemma static_step: "map static_part (entries (step st ev)) = map static_part (entries st)"
  by (cases ev)
     (simp_all add: step_Click step_Blur step_SetRef step_LogoClick map_static_update
        static_part_assign_isOpen static_part_ref_callback)

lemma static_run: "map static_part (entries (run evs st)) = map static_part (entries st)"
  unfolding run_def by (induction evs arbitrary: st) (simp_all add: static_step)

lemma static_mounted: "map static_part (entries (mounted st)) = map static_part (entries st)"
  by (simp add: mounted_def static_part_ref_callback comp_def)

lemma static_makeEntries: "map static_part makeEntries = makeEntries"
  by (simp add: makeEntries_def)

lemma sel_static:
  "label (static_part e) = label e" "icon (static_part e) = icon e"
  "shortcut (static_part e) = shortcut e" "shortcutRequiresLock (static_part e) = shortcutRequiresLock e"
  "checkbox (static_part e) = checkbox e" "checked (static_part e) = checked e"
  "action (static_part e) = action e" "children (static_part e) = children e"
  by (cases e; simp)+

lemma map_sel_static:
  assumes "map static_part es' = map static_part es"
  shows "map label es' = map label es" "map icon es' = map icon es"
    "map shortcut es' = map shortcut es" "map shortcutRequiresLock es' = map shortcutRequiresLock es"
    "map checkbox es' = map checkbox es" "map checked es' = map checked es"
    "map action es' = map action es" "map children es' = map children es"
proof -
  have "map (label \<circ> static_part) es' = map (label \<circ> static_part) es"
    using assms by (metis map_map)
  then show "map label es' = map label es" by (simp add: comp_def sel_static)
  have "map (icon \<circ> static_part) es' = map (icon \<circ> static_part) es"
    using assms by (metis map_map)
  then show "map icon es' = map icon es" by (simp add: comp_def sel_static)
  have "map (shortcut \<circ> static_part) es' = map (shortcut \<circ> static_part) es"
    using assms by (metis map_map)
  then show "map shortcut es' = map shortcut es" by (simp add: comp_def sel_static)
  have "map (shortcutRequiresLock \<circ> static_part) es' = map (shortcutRequiresLock \<circ> static_part) es"
    using assms by (metis map_map)
  then show "map shortcutRequiresLock es' = map shortcutRequiresLock es" by (simp add: comp_def sel_static)
  have "map (checkbox \<circ> static_part) es' = map (checkbox \<circ> static_part) es"
    using assms by (metis map_map)
  then show "map checkbox es' = map checkbox es" by (simp add: comp_def sel_static)
  have "map (checked \<circ> static_part) es' = map (checked \<circ> static_part) es"
    using assms by (metis map_map)
  then show "map checked es' = map checked es" by (simp add: comp_def sel_static)
  have "map (action \<circ> static_part) es' = map (action \<circ> static_part) es"
    using assms by (metis map_map)
  then show "map action es' = map action es" by (simp add: comp_def sel_static)
  have "map (children \<circ> static_part) es' = map (children \<circ> static_part) es"
    using assms by (metis map_map)
  then show "map children es' = map children es" by (simp add: comp_def sel_static)
qed

subsection \<open>The open entries\<close>

lemma set_open_indices:
  "set (open_indices st) = {j. j < length (entries st) \<and> entry_isOpen (entries st ! j)}"
  by (auto simp: open_indices_def)

lemma distinct_open_indices: "distinct (open_indices st)"
  by (simp add: open_indices_def)

lemma open_count_card: "open_count st = card (set (open_indices st))"
  by (simp add: open_count_def distinct_card distinct_open_indices)

lemma set_open_indices_click:
  "set (open_indices (step st (Click i t))) \<subseteq> insert i (set (open_indices st))"
  by (auto simp: step_Click set_open_indices nth_list_update split: if_splits)

lemma click_keeps_siblings: "j \<noteq> i \<Longrightarrow> entries (step st (Click i t)) ! j = entries st ! j"
  by (simp add: step_Click)

lemma open_within_clicked:
  "list_all is_click_or_blur evs \<Longrightarrow>
   set (open_indices (run evs st)) \<subseteq> set (open_indices st) \<union> set (clicked evs)"
proof (induction evs arbitrary: st)
  case Nil
  then show ?case by (simp add: run_Nil)
next
  case (Cons ev evs)
  then have ih: "set (open_indices (run evs (step st ev)))
                 \<subseteq> set (open_indices (step st ev)) \<union> set (clicked evs)"
    by simp
  show ?case
  proof (cases ev)
    case (Click i t)
    then show ?thesis
      using ih set_open_indices_click [of st i t] by (auto simp: run_Cons)
  next
    case (Blur i rel)
    then show ?thesis using ih by (simp add: run_Cons step_Blur)
  next
    case (SetRef i r)
    with Cons.prems show ?thesis by simp
  next
    case LogoClick
    with Cons.prems show ?thesis by simp
  qed
qed

lemma mounted_data_closed: "open_indices (mounted data) = []"
  by (simp add: eval_menu)

subsection \<open>Blur\<close>


subsection \<open>Click\<close>

text \<open>
  Claim C2. \<open>onClick\<close> on an entry whose \<open>ref\<close> is defined throws nothing and leaves the
  entry with its open flag true, the static part untouched; on the component, a click on
  such an entry at index \<open>i\<close> leaves the entry at \<open>i\<close> open.
\<close>

theorem onClick_opens_entry:
  assumes "ref menuEntry \<noteq> None"
  shows "(\<exists>e'. snd (onClick menuEntry tgt) = (None, e') \<and> entry_isOpen e'
               \<and> static_part e' = static_part menuEntry)
       \<and> (i < length (entries st) \<and> entries st ! i = menuEntry \<longrightarrow>
            entry_isOpen (entries (step st (Click i tgt)) ! i))"
  using assms by (simp add: onClick_def entry_isOpen_assign static_part_assign_isOpen step_Click)

text \<open>The Layer entry (index 2) of the rendered menu bar, clicked.\<close>

theorem onClick_opens_entry_witness:
  "ref (entries (mounted data) ! 2) \<noteq> None
   \<and> (\<exists>e'. snd (onClick (entries (mounted data) ! 2) (Some (EntryDiv 2))) = (None, e')
            \<and> entry_isOpen e')
   \<and> entry_isOpen (entries (step (mounted data) (Click 2 (Some (EntryDiv 2)))) ! 2)"
proof -
  have a: "ref (entries (mounted data) ! 2) \<noteq> None"
    by (simp add: entries_mounted_data makeEntries_def ref_callback_def)
  have b: "2 < length (entries (mounted data))"
    by (simp add: entries_mounted_data makeEntries_def)
  show ?thesis
    using a b onClick_opens_entry [OF a, of "Some (EntryDiv 2)" 2 "mounted data"] by blast
qed

subsection \<open>Errors\<close>

lemma panel_no_error: "panel_handle p pev \<noteq> Inl err"
  by (cases pev)
     (auto simp: panel_handle_def tab_click_def tab_click_middle_def close_button_action_def
        comma_def stopPropagation_opt_def optional_call_def split: option.splits)

lemma onClick_thrown:
  "(thrown (snd (onClick menuEntry tgt)) = Some err) =
     (ref menuEntry = None \<and> err = Error ''The menu bar floating menu has no associated ref'')"
  by (auto simp: onClick_def)

lemma onClick_atomic:
  "thrown (snd (onClick menuEntry tgt)) = Some err \<Longrightarrow> at_exit (snd (onClick menuEntry tgt)) = menuEntry"
  by (simp add: onClick_def split: if_splits)

lemma blur_thrown: "(thrown (blur e menuEntry) = Some err) = (target e = None \<and> err = TypeError)"
  by (auto simp: blur_def split: option.splits)

lemma handle_thrown:
  assumes "thrown (snd (handle ev st)) = Some err"
  shows "(\<exists>i t. ev = Click i t \<and> i < length (entries st) \<and> ref (entries st ! i) = None)
         \<and> err = Error ''The menu bar floating menu has no associated ref''
         \<and> step st ev = st"
proof (cases ev)
  case (Click i t)
  with assms have i: "i < length (entries st)"
    by (simp add: handle_def split: if_splits)
  obtain fx err' e' where oc: "onClick (entries st ! i) t = (fx, err', e')"
    by (cases "onClick (entries st ! i) t") auto
  with assms Click i have t: "thrown (snd (onClick (entries st ! i) t)) = Some err"
    by (simp add: handle_def)
  then have "at_exit (snd (onClick (entries st ! i) t)) = entries st ! i"
    by (rule onClick_atomic)
  with oc have "e' = entries st ! i" by simp
  with oc i Click have "step st ev = st"
    by (simp add: step_def handle_def)
  with t i Click show ?thesis by (simp add: onClick_thrown)
next
  case (Blur i rel)
  with assms show ?thesis by (simp add: handle_def blur_own_div split: if_splits)
next
  case (SetRef i r)
  with assms show ?thesis by (simp add: handle_def split: if_splits)
next
  case LogoClick
  with assms show ?thesis by (simp add: handle_def)
qed

text \<open>
  Claim C3, as the code has it. \<open>onClick\<close> throws exactly when the entry's \<open>ref\<close> is
  undefined; the error's message is \<open>The menu bar floating menu has no associated ref\<close>,
  and the entry is then as it was before the call. On the events the menu bar receives,
  a handler that throws is \<open>onClick\<close> on an entry without \<open>ref\<close>, with that error, and
  the component's data is as it was. \<open>blur\<close> throws exactly when the event's target is
  \<open>null\<close>, a \<open>TypeError\<close>, which no event of the menu bar brings about. No handler of the
  panel throws.
\<close>

theorem only_error_is_missing_ref:
  "((thrown (snd (onClick menuEntry tgt)) = Some err) =
      (ref menuEntry = None \<and> err = Error ''The menu bar floating menu has no associated ref''))
   \<and> (thrown (snd (onClick menuEntry tgt)) = Some err \<longrightarrow>
        at_exit (snd (onClick menuEntry tgt)) = menuEntry)
   \<and> (thrown (snd (handle ev st)) = Some err \<longrightarrow>
        (\<exists>i t. ev = Click i t \<and> i < length (entries st) \<and> ref (entries st ! i) = None)
        \<and> err = Error ''The menu bar floating menu has no associated ref''
        \<and> step st ev = st)
   \<and> ((thrown (blur e menuEntry) = Some err) = (target e = None \<and> err = TypeError))
   \<and> panel_handle p pev \<noteq> Inl err"
  using onClick_thrown [of menuEntry tgt err] onClick_atomic [of menuEntry tgt err]
    handle_thrown [of ev st err] blur_thrown [of e menuEntry err] panel_no_error [of p pev err]
  by blast

text \<open>
  \<open>onClick\<close> on File as the static table has it, without \<open>ref\<close>: the error, and the entry
  and the data unchanged.
\<close>

theorem only_error_is_missing_ref_witness:
  "thrown (snd (onClick (entries data ! 0) (Some (EntryDiv 0))))
     = Some (Error ''The menu bar floating menu has no associated ref'')
   \<and> at_exit (snd (onClick (entries data ! 0) (Some (EntryDiv 0)))) = entries data ! 0
   \<and> thrown (snd (handle (Click 0 (Some (EntryDiv 0))) data))
     = Some (Error ''The menu bar floating menu has no associated ref'')
   \<and> step data (Click 0 (Some (EntryDiv 0))) = data"
proof -
  have a: "thrown (snd (onClick (entries data ! 0) (Some (EntryDiv 0))))
     = Some (Error ''The menu bar floating menu has no associated ref'')"
    by (simp add: onClick_def data_def makeEntries_def)
  have b: "thrown (snd (handle (Click 0 (Some (EntryDiv 0))) data))
     = Some (Error ''The menu bar floating menu has no associated ref'')"
    by (simp add: handle_def onClick_def data_def makeEntries_def)
  show ?thesis
    using a b only_error_is_missing_ref
      [where ev = "Click 0 (Some (EntryDiv 0))" and st = data
         and err = "Error ''The menu bar floating menu has no associated ref''"
         and menuEntry = "entries data ! 0" and tgt = "Some (EntryDiv 0)"
         and e = "\<lparr>target = None, relatedTarget = None\<rparr>"
         and p = bare_panel and pev = "TabClick 0 None"]
    by blast
qed

text \<open>
  Claim C3 as stated fails twice. The error \<open>onClick\<close> throws for an entry without \<open>ref\<close>
  is not the one whose message is \<open>menu bar floating menu has no associated ref\<close>. And
  it is not the only error of the handlers: \<open>blur\<close>, called with an event whose target is
  \<open>null\<close>, throws a \<open>TypeError\<close>.
\<close>

theorem error_message_differs_and_blur_throws:
  "ref (entries data ! 0) = None
   \<and> thrown (snd (onClick (entries data ! 0) None))
       \<noteq> Some (Error ''menu bar floating menu has no associated ref'')
   \<and> thrown (blur \<lparr>target = None, relatedTarget = None\<rparr> (entries data ! 0)) = Some TypeError"
  by (simp add: data_def makeEntries_def onClick_def blur_def)

subsection \<open>Exclusive open state\<close>

text \<open>
  Claim C4, as the code has it. After any sequence of \<open>onClick\<close> and \<open>blur\<close> events, an
  entry is open only if it was open at the start or has been clicked, and a click leaves
  every entry other than the clicked one as it was. From the rendered menu bar with every
  entry closed, the open entries are therefore among the clicked ones, and there are at
  most as many of them as distinct entries have been clicked: at most one as long as the
  clicks are all on one entry.
\<close>

theorem open_entries_among_clicked:
  assumes "list_all is_click_or_blur evs"
  shows "set (open_indices (run evs st)) \<subseteq> set (open_indices st) \<union> set (clicked evs)
       \<and> (\<forall>i t j. j \<noteq> i \<longrightarrow> entries (step st (Click i t)) ! j = entries st ! j)
       \<and> set (open_indices (run evs (mounted data))) \<subseteq> set (clicked evs)
       \<and> open_count (run evs (mounted data)) \<le> card (set (clicked evs))"
proof -
  have a: "set (open_indices (run evs (mounted data))) \<subseteq> set (clicked evs)"
    using open_within_clicked [OF assms, of "mounted data"] by (simp add: mounted_data_closed)
  then have "card (set (open_indices (run evs (mounted data)))) \<le> card (set (clicked evs))"
    by (intro card_mono) simp_all
  then show ?thesis
    using a open_within_clicked [OF assms, of st] by (simp add: open_count_card click_keeps_siblings)
qed

text \<open>Click File, let the focus leave the menu bar, click File again: one entry is open.\<close>

theorem open_entries_among_clicked_witness:
  "list_all is_click_or_blur
     [Click 0 (Some (EntryDiv 0)), Blur 0 (Some (Outside 9)), Click 0 (Some (EntryChild 0))]
   \<and> open_count (run
       [Click 0 (Some (EntryDiv 0)), Blur 0 (Some (Outside 9)), Click 0 (Some (EntryChild 0))]
       (mounted data)) \<le> 1
   \<and> open_indices (run
       [Click 0 (Some (EntryDiv 0)), Blur 0 (Some (Outside 9)), Click 0 (Some (EntryChild 0))]
       (mounted data)) = [0]"
proof -
  have a: "list_all is_click_or_blur
     [Click 0 (Some (EntryDiv 0)), Blur 0 (Some (Outside 9)), Click 0 (Some (EntryChild 0))]"
    by simp
  have b: "open_indices (run
       [Click 0 (Some (EntryDiv 0)), Blur 0 (Some (Outside 9)), Click 0 (Some (EntryChild 0))]
       (mounted data)) = [0]"
    by (simp add: eval_menu)
  show ?thesis
    using a b open_entries_among_clicked [OF a, of data] by simp
qed

text \<open>
  Claim C4 as stated fails. From the rendered menu bar with every entry closed: click
  File, File loses the focus to Edit, click Edit. Two entries are open.
\<close>

theorem two_entries_open_after_two_clicks:
  "open_count (run
     [Click 0 (Some (EntryDiv 0)), Blur 0 (Some (EntryDiv 1)), Click 1 (Some (EntryDiv 1))]
     (mounted data)) = 2"
  by (simp add: eval_menu)

subsection \<open>The methods of the editor instance\<close>

text \<open>
  Claim C5, as the code has it. The methods the entry actions call directly are exactly
  the nineteen of the specification's list. The actions call two more methods of the
  editor instance, \<open>i32_max\<close> and \<open>i32_min\<close>, each once, in the argument of
  \<open>reorder_selected_layers\<close>; all methods called are the nineteen and these two.
\<close>

theorem entry_actions_call_listed_methods_and_i32_bounds:
  "set (entries_heads makeEntries) = set spec_interface_methods
   \<and> set (entries_methods makeEntries) = set spec_interface_methods \<union> {''i32_max'', ''i32_min''}
   \<and> entries_arg_methods makeEntries =
       [(''reorder_selected_layers'', ''i32_max''), (''reorder_selected_layers'', ''i32_min'')]"
proof -
  have a: "set (entries_heads makeEntries) = set spec_interface_methods"
    by (simp add: makeEntries_def entries_heads_def spec_interface_methods_def insert_commute)
  have b: "set (entries_methods makeEntries) = set spec_interface_methods \<union> {''i32_max'', ''i32_min''}"
    by (simp add: makeEntries_def entries_methods_def spec_interface_methods_def insert_commute)
  have c: "entries_arg_methods makeEntries =
       [(''reorder_selected_layers'', ''i32_max''), (''reorder_selected_layers'', ''i32_min'')]"
    by (simp add: makeEntries_def entries_arg_methods_def)
  show ?thesis using a b c by simp
qed

text \<open>
  Claim C5 as stated fails: \<open>i32_max\<close> is a method of the editor instance that an entry
  action invokes, and it is not in the list.
\<close>

theorem i32_max_invoked_but_not_listed:
  "''i32_max'' \<in> set (entries_methods makeEntries) \<and> ''i32_max'' \<notin> set spec_interface_methods"
  by (simp add: makeEntries_def entries_methods_def spec_interface_methods_def)

subsection \<open>Frame of the handlers\<close>

text \<open>
  Claim C8. After any sequence of events of the menu bar (clicks and blurs of entries,
  and also the mounting of floating menus and clicks on the logo), the entries are as
  many as before and each has the label, icon,
  shortcut, shortcut lock, checkbox, checked state, children and action it had; started
  from the component's initial data, the entries without their \<open>ref\<close> are the static
  table.
\<close>

theorem handlers_keep_static_table:
  "(let es' = entries (run evs st); es = entries st in
     length es' = length es
     \<and> map label es' = map label es \<and> map icon es' = map icon es
     \<and> map shortcut es' = map shortcut es
     \<and> map shortcutRequiresLock es' = map shortcutRequiresLock es
     \<and> map checkbox es' = map checkbox es \<and> map checked es' = map checked es
     \<and> map children es' = map children es \<and> map action es' = map action es)
   \<and> map static_part (entries (run evs data)) = makeEntries
   \<and> map static_part (entries (run evs (mounted data))) = makeEntries"
proof -
  have a: "map static_part (entries (run evs st)) = map static_part (entries st)"
    by (rule static_run)
  then have b: "length (entries (run evs st)) = length (entries st)"
    using map_eq_imp_length_eq by blast
  have c: "map static_part (entries (run evs data)) = makeEntries"
    by (simp add: static_run data_def static_makeEntries)
  have d: "map static_part (entries (run evs (mounted data))) = makeEntries"
    by (simp add: static_run static_mounted data_def static_makeEntries)
  show ?thesis using b c d map_sel_static [OF a] by (simp add: Let_def)
qed

subsection \<open>Layer order\<close>

text \<open>
  Claim C9. In the submenu Order of Layer, the action of Raise To Front calls
  \<open>reorder_selected_layers\<close> with the editor's \<open>i32_max()\<close>, Raise with 1, Lower with -1,
  and Lower to Back with the editor's \<open>i32_min()\<close>.
\<close>

theorem layer_order_deltas:
  "map_option action (entry_at [''Layer'', ''Order'', ''Raise To Front''] makeEntries)
     = Some (Some (Async (EditorCall ''reorder_selected_layers'' [EditorCall ''i32_max'' []])))
   \<and> map_option action (entry_at [''Layer'', ''Order'', ''Raise''] makeEntries)
     = Some (Some (Async (EditorCall ''reorder_selected_layers'' [Num 1])))
   \<and> map_option action (entry_at [''Layer'', ''Order'', ''Lower''] makeEntries)
     = Some (Some (Async (EditorCall ''reorder_selected_layers'' [Num (- 1)])))
   \<and> map_option action (entry_at [''Layer'', ''Order'', ''Lower to Back''] makeEntries)
     = Some (Some (Async (EditorCall ''reorder_selected_layers'' [EditorCall ''i32_min'' []])))"
  by (simp add: makeEntries_def)

section \<open>Properties of the panel\<close>

lemma invocations_comma_stop:
  "invocations (comma (stopPropagation_opt e) (optional_call f i)) =
     (case f of None \<Rightarrow> [] | Some g \<Rightarrow> [(g, i)])"
  by (simp add: invocations_def comma_def stopPropagation_opt_def optional_call_def
      split: option.splits)

lemma invocations_Nil: "invocations (Inr []) = []"
  by (simp add: invocations_def)

lemma filter_eq_index:
  "filter (\<lambda>j. int j = k) [0..<n] = (if 0 \<le> k \<and> k < int n then [nat k] else [])"
proof (induction n)
  case 0
  then show ?case by simp
next
  case (Suc n)
  then show ?case by (auto simp: nat_eq_iff)
qed

lemma active_count_eq: "active_count p = (if active_in_bounds p then 1 else 0)"
  by (simp add: active_count_def render_tabs_def filter_map comp_def filter_eq_index
      active_in_bounds_def)

subsection \<open>Dispatch by index\<close>

text \<open>
  Claim C6. For an index \<open>i\<close> into the tab labels: a click on tab \<open>i\<close> calls
  \<open>clickAction\<close>, when the parent gave one, once and with \<open>i\<close>; a middle click on tab \<open>i\<close>,
  and a click on its close button when close buttons are rendered, call \<open>closeAction\<close>,
  when given, once and with \<open>i\<close>; and whatever the event, every callback call it causes
  has the index of the event's own tab.
\<close>

theorem tab_handlers_dispatch_by_index:
  assumes "i < length (tabLabels p)"
  shows "(clickAction p = Some f \<longrightarrow> invocations (panel_handle p (TabClick i e)) = [(f, i)])
       \<and> (closeAction p = Some g \<longrightarrow> invocations (panel_handle p (TabMiddleClick i e)) = [(g, i)])
       \<and> (closeAction p = Some g \<and> tabCloseButtons p \<longrightarrow>
            invocations (panel_handle p (CloseButtonClick i e)) = [(g, i)])
       \<and> (\<forall>ev. \<forall>(h, j) \<in> set (invocations (panel_handle p ev)). j = event_tab ev)"
proof -
  have "\<forall>(h, j) \<in> set (invocations (panel_handle p ev)). j = event_tab ev" for ev
    by (cases ev)
       (auto simp: panel_handle_def tab_click_def tab_click_middle_def close_button_action_def
          invocations_comma_stop invocations_Nil split: option.splits)
  then show ?thesis
    using assms
    by (simp add: panel_handle_def tab_click_def tab_click_middle_def close_button_action_def
          invocations_comma_stop)
qed

text \<open>The second tab of a panel of two documents.\<close>

theorem tab_handlers_dispatch_by_index_witness:
  "1 < length (tabLabels two_tab_panel)
   \<and> invocations (panel_handle two_tab_panel (TabClick 1 (Some (MouseEvent 0))))
       = [(''selectDocument'', 1)]
   \<and> invocations (panel_handle two_tab_panel (TabMiddleClick 1 (Some (MouseEvent 0))))
       = [(''closeDocument'', 1)]
   \<and> invocations (panel_handle two_tab_panel (CloseButtonClick 1 (Some (MouseEvent 0))))
       = [(''closeDocument'', 1)]"
proof -
  have a: "1 < length (tabLabels two_tab_panel)"
    by (simp add: two_tab_panel_def)
  have b: "clickAction two_tab_panel = Some ''selectDocument''"
    "closeAction two_tab_panel = Some ''closeDocument''" "tabCloseButtons two_tab_panel"
    by (simp_all add: two_tab_panel_def)
  show ?thesis
    using a b tab_handlers_dispatch_by_index
      [OF a, of "''selectDocument''" "Some (MouseEvent 0)" "''closeDocument''"]
    by blast
qed

subsection \<open>The active tab\<close>

text \<open>
  Claim C7, as the code has it. The number of tabs rendered as active is one when
  \<open>0 \<le> tabActiveIndex < tabLabels.length\<close> and zero otherwise; when the bound holds, the
  active tab is the one at \<open>tabActiveIndex\<close>.
\<close>

theorem one_active_tab_iff_index_in_bounds:
  "active_count p = (if active_in_bounds p then 1 else 0)
   \<and> (active_in_bounds p \<longrightarrow>
        map active (render_tabs p) = map (\<lambda>j. j = nat (tabActiveIndex p)) [0..<length (tabLabels p)])"
  by (auto simp: active_count_eq render_tabs_def comp_def active_in_bounds_def nat_eq_iff)

text \<open>Two tabs, the second active.\<close>

theorem one_active_tab_iff_index_in_bounds_witness:
  "active_in_bounds two_tab_panel \<and> active_count two_tab_panel = 1
   \<and> map active (render_tabs two_tab_panel) = [False, True]"
proof -
  have a: "active_in_bounds two_tab_panel"
    by (simp add: active_in_bounds_def two_tab_panel_def)
  have b: "map (\<lambda>j. j = nat (tabActiveIndex two_tab_panel)) [0..<length (tabLabels two_tab_panel)]
           = [False, True]"
    by (simp add: two_tab_panel_def upt_rec)
  show ?thesis using a b one_active_tab_iff_index_in_bounds [of two_tab_panel] by simp
qed

text \<open>
  Claim C7 as stated fails: a panel is rendered with whatever props the parent gives. With
  no tabs and the active index 0 the bound does not hold, and no tab is active.
\<close>

theorem panel_without_tabs_out_of_bounds:
  "\<not> active_in_bounds empty_panel \<and> active_count empty_panel = 0"
  by (simp add: active_in_bounds_def active_count_def render_tabs_def empty_panel_def)

subsection \<open>Callbacks left out\<close>

text \<open>
  Claim C10, as the code has it. With \<open>clickAction\<close> undefined the click handler of a tab
  calls no callback, and with \<open>closeAction\<close> undefined neither the middle-click handler
  nor the close button's does; what the handler still does is \<open>e?.stopPropagation()\<close>, and
  nothing else. No handler of the tab bar throws, with or without the callbacks.
\<close>

theorem handlers_total_without_callbacks:
  "(clickAction p = None \<longrightarrow>
      tab_click p i e = stopPropagation_opt e \<and> invocations (tab_click p i e) = [])
   \<and> (closeAction p = None \<longrightarrow>
      tab_click_middle p i e = stopPropagation_opt e \<and> invocations (tab_click_middle p i e) = []
      \<and> close_button_action p i e = stopPropagation_opt e
      \<and> invocations (close_button_action p i e) = [])
   \<and> \<not> isl (tab_click p i e) \<and> \<not> isl (tab_click_middle p i e)
   \<and> \<not> isl (close_button_action p i e) \<and> \<not> isl (panel_handle p ev)"
proof -
  have "\<not> isl (panel_handle p ev)"
    using panel_no_error [of p ev] by (cases "panel_handle p ev") auto
  then show ?thesis
    by (auto simp: tab_click_def tab_click_middle_def close_button_action_def
        comma_def stopPropagation_opt_def optional_call_def invocations_def split: option.splits)
qed

text \<open>A panel given neither callback.\<close>

theorem handlers_total_without_callbacks_witness:
  "clickAction bare_panel = None \<and> closeAction bare_panel = None
   \<and> tab_click bare_panel 0 (Some (MouseEvent 0)) = Inr [StopPropagation (MouseEvent 0)]
   \<and> tab_click_middle bare_panel 0 (Some (MouseEvent 0)) = Inr [StopPropagation (MouseEvent 0)]
   \<and> close_button_action bare_panel 0 (Some (MouseEvent 0)) = Inr [StopPropagation (MouseEvent 0)]
   \<and> invocations (tab_click bare_panel 0 (Some (MouseEvent 0))) = []"
proof -
  have a: "clickAction bare_panel = None" "closeAction bare_panel = None"
    by (simp_all add: bare_panel_def)
  show ?thesis
    using a
      handlers_total_without_callbacks
        [of bare_panel 0 "Some (MouseEvent 0)" "TabClick 0 (Some (MouseEvent 0))"]
    by (simp add: stopPropagation_opt_def invocations_def)
qed

text \<open>
  Claim C10 as stated fails: with \<open>clickAction\<close> undefined, the click handler given the
  click event is not a no-op, it stops the event's propagation.
\<close>

theorem handler_without_callback_stops_propagation:
  "clickAction bare_panel = None
   \<and> tab_click bare_panel 0 (Some (MouseEvent 0)) = Inr [StopPropagation (MouseEvent 0)]
   \<and> tab_click bare_panel 0 (Some (MouseEvent 0)) \<noteq> Inr []"
  by (simp add: bare_panel_def tab_click_def comma_def stopPropagation_opt_def optional_call_def)

end
